theory Spec2Isabelle
  imports Complex_Main
begin

section \<open>JSON values as Python sees them\<close>

text \<open>
  The payload is what \<^verbatim>\<open>json.loads\<close> returns: \<^verbatim>\<open>None\<close>, \<^verbatim>\<open>bool\<close>, \<^verbatim>\<open>int\<close>,
  \<^verbatim>\<open>float\<close>, \<^verbatim>\<open>str\<close>, \<^verbatim>\<open>list\<close> and \<^verbatim>\<open>dict\<close>. A dict keeps insertion order, so it
  is an association list; a lookup reads the first binding of a key. Python's \<^verbatim>\<open>None\<close>
  is the JSON null, so a function that returns \<^verbatim>\<open>None\<close> returns \<open>JNull\<close>.

  A float is either a finite value, written as the rational number it stands for, or one
  of the three non-finite values that \<^verbatim>\<open>json.loads\<close> produces (\<^verbatim>\<open>1e999\<close> reads as
  infinity). Rounding to binary64 is not modelled. Text is modelled as lists of 8-bit
  characters with the ASCII reading of digits, letters and white space.
\<close>

datatype pyfloat = Finite rat | PosInf | NegInf | NaN

datatype json =
    JNull
  | JBool bool
  | JInt int
  | JFloat pyfloat
  | JStr string
  | JArr "json list"
  | JObj "(string \<times> json) list"

type_synonym pydict = "(string \<times> json) list"

datatype py_error = ValueError | OverflowError

text \<open>\<^verbatim>\<open>k in d\<close>, \<^verbatim>\<open>d.get(k)\<close>, truthiness, \<^verbatim>\<open>a or b\<close> and the \<^verbatim>\<open>isinstance\<close> tests.\<close>

definition has_key :: "pydict \<Rightarrow> string \<Rightarrow> bool" where
  "has_key d k = (map_of d k \<noteq> None)"

definition dict_get :: "pydict \<Rightarrow> string \<Rightarrow> json" where
  "dict_get d k = (case map_of d k of None \<Rightarrow> JNull | Some v \<Rightarrow> v)"

fun float_truthy :: "pyfloat \<Rightarrow> bool" where
  "float_truthy (Finite r) = (r \<noteq> 0)"
| "float_truthy PosInf = True"
| "float_truthy NegInf = True"
| "float_truthy NaN = True"

fun truthy :: "json \<Rightarrow> bool" where
  "truthy JNull = False"
| "truthy (JBool b) = b"
| "truthy (JInt i) = (i \<noteq> 0)"
| "truthy (JFloat f) = float_truthy f"
| "truthy (JStr s) = (s \<noteq> [])"
| "truthy (JArr xs) = (xs \<noteq> [])"
| "truthy (JObj d) = (d \<noteq> [])"

definition py_or :: "json \<Rightarrow> json \<Rightarrow> json" where
  "py_or a b = (if truthy a then a else b)"

text \<open>\<^verbatim>\<open>isinstance(x, (int, float))\<close>: \<^verbatim>\<open>bool\<close> is a subclass of \<^verbatim>\<open>int\<close>.\<close>

fun is_number :: "json \<Rightarrow> bool" where
  "is_number (JBool b) = True"
| "is_number (JInt i) = True"
| "is_number (JFloat f) = True"
| "is_number j = False"

fun is_str :: "json \<Rightarrow> bool" where
  "is_str (JStr s) = True"
| "is_str j = False"

fun is_dict :: "json \<Rightarrow> bool" where
  "is_dict (JObj d) = True"
| "is_dict j = False"

section \<open>Text\<close>

text \<open>
  \<^verbatim>\<open>str.isdigit\<close>, \<^verbatim>\<open>str.strip\<close>, \<^verbatim>\<open>str.upper\<close> and \<^verbatim>\<open>sub in s\<close> on ASCII text.
\<close>

definition is_digit :: "char \<Rightarrow> bool" where
  "is_digit c = (c \<in> set ''0123456789'')"

definition digit_val :: "char \<Rightarrow> nat" where
  "digit_val c = of_char c - 48"

definition digit_char :: "nat \<Rightarrow> char" where
  "digit_char n = ''0123456789'' ! n"

definition is_space :: "char \<Rightarrow> bool" where
  "is_space c =
     (c \<in> set [CHR '' '', CHR 0x09, CHR 0x0A, CHR 0x0B, CHR 0x0C, CHR 0x0D,
                CHR 0x1C, CHR 0x1D, CHR 0x1E, CHR 0x1F])"

definition py_strip :: "string \<Rightarrow> string" where
  "py_strip s = rev (dropWhile is_space (rev (dropWhile is_space s)))"

definition to_upper :: "char \<Rightarrow> char" where
  "to_upper c =
     (case map_of (zip ''abcdefghijklmnopqrstuvwxyz'' ''ABCDEFGHIJKLMNOPQRSTUVWXYZ'') c of
        Some u \<Rightarrow> u
      | None \<Rightarrow> c)"

definition py_upper :: "string \<Rightarrow> string" where
  "py_upper s = map to_upper s"

fun is_substring :: "string \<Rightarrow> string \<Rightarrow> bool" where
  "is_substring sub [] = (sub = [])"
| "is_substring sub (c # cs) = (take (length sub) (c # cs) = sub \<or> is_substring sub cs)"

section \<open>The key-match resolver\<close>

text \<open>
  \<^verbatim>\<open>for k in keys: if k in n: return n[k]\<close> of \<^verbatim>\<open>_find_first_value._walk\<close>: the value of
  the first candidate key, in the caller's order, that the dict has.
\<close>

fun first_present :: "string list \<Rightarrow> pydict \<Rightarrow> json option" where
  "first_present [] d = None"
| "first_present (k # ks) d =
     (case map_of d k of Some v \<Rightarrow> Some v | None \<Rightarrow> first_present ks d)"

text \<open>
  \<^verbatim>\<open>_find_first_value._walk\<close> (restaurant_parser.py). The loops over \<^verbatim>\<open>n.values()\<close> and
  over the items of a list leave at the first result that \<^verbatim>\<open>is not None\<close>.
\<close>

fun ffv_walk :: "string list \<Rightarrow> json \<Rightarrow> json"
  and ffv_walk_items :: "string list \<Rightarrow> json list \<Rightarrow> json"
  and ffv_walk_values :: "string list \<Rightarrow> pydict \<Rightarrow> json" where
  "ffv_walk keys (JObj d) =
     (case first_present keys d of
        Some v \<Rightarrow> v
      | None \<Rightarrow> ffv_walk_values keys d)"
| "ffv_walk keys (JArr xs) = ffv_walk_items keys xs"
| "ffv_walk keys JNull = JNull"
| "ffv_walk keys (JBool b) = JNull"
| "ffv_walk keys (JInt i) = JNull"
| "ffv_walk keys (JFloat f) = JNull"
| "ffv_walk keys (JStr s) = JNull"
| "ffv_walk_items keys [] = JNull"
| "ffv_walk_items keys (x # xs) =
     (let found = ffv_walk keys x in
      if found \<noteq> JNull then found else ffv_walk_items keys xs)"
| "ffv_walk_values keys [] = JNull"
| "ffv_walk_values keys ((k, v) # kvs) =
     (let found = ffv_walk keys v in
      if found \<noteq> JNull then found else ffv_walk_values keys kvs)"

text \<open>\<^verbatim>\<open>_find_first_value(node, keys)\<close>; the leading underscore is dropped.\<close>

definition find_first_value :: "json \<Rightarrow> string list \<Rightarrow> json" where
  "find_first_value node keys = (if node = JNull then JNull else ffv_walk keys node)"

section \<open>The restaurant-node locator\<close>

text \<open>
  \<^verbatim>\<open>_guess_restaurant_node._walk\<close> appends to the list \<^verbatim>\<open>candidates\<close>; the list is
  passed through the traversal.
\<close>

definition identity_keys :: "string list" where
  "identity_keys = [''storeUuid'', ''restaurantUuid'', ''restaurantId'', ''merchant'']"

function grn_walk :: "json \<Rightarrow> pydict list \<Rightarrow> pydict list"
  and grn_walk_items :: "json list \<Rightarrow> pydict list \<Rightarrow> pydict list"
  and grn_walk_values :: "pydict \<Rightarrow> pydict list \<Rightarrow> pydict list" where
  "grn_walk (JObj d) cands =
     grn_walk_values d (if list_ex (has_key d) identity_keys then cands @ [d] else cands)"
| "grn_walk (JArr xs) cands = grn_walk_items xs cands"
| "grn_walk JNull cands = cands"
| "grn_walk (JBool b) cands = cands"
| "grn_walk (JInt i) cands = cands"
| "grn_walk (JFloat f) cands = cands"
| "grn_walk (JStr s) cands = cands"
| "grn_walk_items [] cands = cands"
| "grn_walk_items (x # xs) cands = grn_walk_items xs (grn_walk x cands)"
| "grn_walk_values [] cands = cands"
| "grn_walk_values ((k, v) # kvs) cands = grn_walk_values kvs (grn_walk v cands)"
  by pat_completeness auto
termination
  by (relation "measure (\<lambda>x. case x of
         Inl (j, c) \<Rightarrow> size j
       | Inr (Inl (xs, c)) \<Rightarrow> size_list size xs
       | Inr (Inr (d, c)) \<Rightarrow> size_list (size_prod (\<lambda>_. 0) size) d)") auto

definition guess_restaurant_node :: "json \<Rightarrow> json" where
  "guess_restaurant_node tree =
     (case grn_walk tree [] of
        c # _ \<Rightarrow> JObj c
      | [] \<Rightarrow> (if is_dict tree then tree else JNull))"

section \<open>Categories\<close>

text \<open>
  \<^verbatim>\<open>_guess_categories._walk\<close> returns a list of strings or \<^verbatim>\<open>None\<close>; a caller goes on
  to the next child unless the result is truthy, that is a non-empty list.
\<close>

fun str_of :: "json \<Rightarrow> string option" where
  "str_of (JStr s) = Some s"
| "str_of j = None"

fun category_title :: "json \<Rightarrow> string option" where
  "category_title (JObj item) = str_of (py_or (dict_get item ''title'') (dict_get item ''name''))"
| "category_title j = None"

definition direct_categories :: "pydict \<Rightarrow> string list option" where
  "direct_categories n =
     (case map_of n ''categories'' of
        Some (JArr raw) \<Rightarrow>
          (if list_all is_str raw then Some (List.map_filter str_of raw)
           else (let titles = List.map_filter category_title raw in
                 if titles \<noteq> [] then Some titles else None))
      | _ \<Rightarrow> None)"

definition list_truthy :: "string list option \<Rightarrow> bool" where
  "list_truthy r = (case r of Some (x # xs) \<Rightarrow> True | _ \<Rightarrow> False)"

fun gc_walk :: "json \<Rightarrow> string list option"
  and gc_walk_items :: "json list \<Rightarrow> string list option"
  and gc_walk_values :: "pydict \<Rightarrow> string list option" where
  "gc_walk (JObj n) =
     (case direct_categories n of
        Some r \<Rightarrow> Some r
      | None \<Rightarrow> gc_walk_values n)"
| "gc_walk (JArr xs) = gc_walk_items xs"
| "gc_walk JNull = None"
| "gc_walk (JBool b) = None"
| "gc_walk (JInt i) = None"
| "gc_walk (JFloat f) = None"
| "gc_walk (JStr s) = None"
| "gc_walk_items [] = None"
| "gc_walk_items (x # xs) =
     (let result = gc_walk x in
      if list_truthy result then result else gc_walk_items xs)"
| "gc_walk_values [] = None"
| "gc_walk_values ((k, v) # kvs) =
     (let result = gc_walk v in
      if list_truthy result then result else gc_walk_values kvs)"

definition guess_categories :: "json \<Rightarrow> string list" where
  "guess_categories node = (case gc_walk node of Some (x # xs) \<Rightarrow> x # xs | _ \<Rightarrow> [])"

section \<open>The location normalizer\<close>

record location =
  loc_address :: json
  loc_city :: json
  loc_postalCode :: json
  loc_country :: json
  loc_latitude :: json
  loc_longitude :: json
  loc_locationType :: json

text \<open>The test of \<^verbatim>\<open>parse_location._walk\<close> on a dict.\<close>

definition has_coordinates :: "pydict \<Rightarrow> bool" where
  "has_coordinates n =
     (has_key n ''latitude'' \<and> has_key n ''longitude''
      \<and> is_number (dict_get n ''latitude'') \<and> is_number (dict_get n ''longitude''))"

text \<open>
  \<^verbatim>\<open>parse_location._walk\<close> writes the nonlocal \<^verbatim>\<open>candidate\<close> and returns at once when
  it is set; the variable is passed through the traversal.
\<close>

function loc_walk :: "json \<Rightarrow> pydict option \<Rightarrow> pydict option"
  and loc_walk_items :: "json list \<Rightarrow> pydict option \<Rightarrow> pydict option"
  and loc_walk_values :: "pydict \<Rightarrow> pydict option \<Rightarrow> pydict option" where
  "loc_walk (JObj n) cand =
     (if cand \<noteq> None then cand
      else if has_coordinates n then Some n
      else loc_walk_values n cand)"
| "loc_walk (JArr xs) cand = (if cand \<noteq> None then cand else loc_walk_items xs cand)"
| "loc_walk JNull cand = cand"
| "loc_walk (JBool b) cand = cand"
| "loc_walk (JInt i) cand = cand"
| "loc_walk (JFloat f) cand = cand"
| "loc_walk (JStr s) cand = cand"
| "loc_walk_items [] cand = cand"
| "loc_walk_items (x # xs) cand = loc_walk_items xs (loc_walk x cand)"
| "loc_walk_values [] cand = cand"
| "loc_walk_values ((k, v) # kvs) cand = loc_walk_values kvs (loc_walk v cand)"
  by pat_completeness auto
termination
  by (relation "measure (\<lambda>x. case x of
         Inl (j, c) \<Rightarrow> size j
       | Inr (Inl (xs, c)) \<Rightarrow> size_list size xs
       | Inr (Inr (d, c)) \<Rightarrow> size_list (size_prod (\<lambda>_. 0) size) d)") auto

definition parse_location :: "json \<Rightarrow> location" where
  "parse_location node =
     (let loc = (case loc_walk node None of Some c \<Rightarrow> (if c \<noteq> [] then c else []) | None \<Rightarrow> []) in
      \<lparr> loc_address =
          py_or (py_or (dict_get loc ''address'') (dict_get loc ''streetAddress''))
            (dict_get loc ''line1''),
        loc_city =
          py_or (py_or (dict_get loc ''city'') (dict_get loc ''town'')) (dict_get loc ''locality''),
        loc_postalCode = py_or (dict_get loc ''postalCode'') (dict_get loc ''zipCode''),
        loc_country = py_or (dict_get loc ''country'') (dict_get loc ''countryCode''),
        loc_latitude = dict_get loc ''latitude'',
        loc_longitude = dict_get loc ''longitude'',
        loc_locationType =
          py_or (py_or (dict_get loc ''locationType'') (dict_get loc ''type''))
            (JStr ''DEFAULT'') \<rparr>)"

section \<open>The time parser\<close>

text \<open>
  \<^verbatim>\<open>datetime.strptime\<close> compiles its format into a regular expression, matches it at
  the start of the text and raises \<^verbatim>\<open>ValueError\<close> when nothing matches or text remains.
  A directive is modelled by the list of its matches in the order in which the
  backtracking matcher tries them, each with the value read and the text left over:
  \<^verbatim>\<open>%H\<close> is \<^verbatim>\<open>2[0-3]|[0-1]\d|\d\<close>, \<^verbatim>\<open>%I\<close> is \<^verbatim>\<open>1[0-2]|0[1-9]|[1-9]\<close>, \<^verbatim>\<open>%M\<close> is
  \<^verbatim>\<open>[0-5]\d|\d\<close>, a blank of the format is \<^verbatim>\<open>\s+\<close>, and \<^verbatim>\<open>%p\<close> is \<^verbatim>\<open>am|pm\<close> without
  regard to case.
\<close>

fun re_two :: "(char \<Rightarrow> bool) \<Rightarrow> (char \<Rightarrow> bool) \<Rightarrow> string \<Rightarrow> (nat \<times> string) list" where
  "re_two p q (c1 # c2 # r) =
     (if p c1 \<and> q c2 then [(10 * digit_val c1 + digit_val c2, r)] else [])"
| "re_two p q s = []"

fun re_one :: "(char \<Rightarrow> bool) \<Rightarrow> string \<Rightarrow> (nat \<times> string) list" where
  "re_one p (c # r) = (if p c then [(digit_val c, r)] else [])"
| "re_one p [] = []"

definition re_H :: "string \<Rightarrow> (nat \<times> string) list" where
  "re_H s =
     re_two (\<lambda>c. c = CHR ''2'') (\<lambda>c. c \<in> set ''0123'') s
     @ re_two (\<lambda>c. c \<in> set ''01'') is_digit s
     @ re_one is_digit s"

definition re_I :: "string \<Rightarrow> (nat \<times> string) list" where
  "re_I s =
     re_two (\<lambda>c. c = CHR ''1'') (\<lambda>c. c \<in> set ''012'') s
     @ re_two (\<lambda>c. c = CHR ''0'') (\<lambda>c. c \<in> set ''123456789'') s
     @ re_one (\<lambda>c. c \<in> set ''123456789'') s"

definition re_M :: "string \<Rightarrow> (nat \<times> string) list" where
  "re_M s = re_two (\<lambda>c. c \<in> set ''012345'') is_digit s @ re_one is_digit s"

fun re_colon :: "string \<Rightarrow> string list" where
  "re_colon (c # r) = (if c = CHR '':'' then [r] else [])"
| "re_colon [] = []"

definition re_spaces :: "string \<Rightarrow> string list" where
  "re_spaces s = map (\<lambda>k. drop k s) (rev [1 ..< Suc (length (takeWhile is_space s))])"

fun re_p :: "string \<Rightarrow> (bool \<times> string) list" where
  "re_p (c1 # c2 # r) =
     (if to_upper c2 = CHR ''M'' then
        (if to_upper c1 = CHR ''A'' then [(False, r)]
         else if to_upper c1 = CHR ''P'' then [(True, r)]
         else [])
      else [])"
| "re_p s = []"

definition first_match :: "('a \<times> string) list \<Rightarrow> py_error + 'a" where
  "first_match ms =
     (case ms of
        [] \<Rightarrow> Inl ValueError
      | (v, rest) # _ \<Rightarrow> (if rest = [] then Inr v else Inl ValueError))"

definition strptime_HM :: "string \<Rightarrow> py_error + (nat \<times> nat)" where
  "strptime_HM s =
     first_match
       (List.bind (re_H s) (\<lambda>(h, r1).
        List.bind (re_colon r1) (\<lambda>r2.
        map (\<lambda>(m, r3). ((h, m), r3)) (re_M r2))))"

definition hour_of_12 :: "nat \<Rightarrow> bool \<Rightarrow> nat" where
  "hour_of_12 h pm =
     (if pm then (if h \<noteq> 12 then h + 12 else h) else (if h = 12 then 0 else h))"

definition strptime_IMp :: "string \<Rightarrow> py_error + (nat \<times> nat)" where
  "strptime_IMp s =
     first_match
       (List.bind (re_I s) (\<lambda>(h, r1).
        List.bind (re_colon r1) (\<lambda>r2.
        List.bind (re_M r2) (\<lambda>(m, r3).
        List.bind (re_spaces r3) (\<lambda>r4.
        map (\<lambda>(pm, r5). ((hour_of_12 h pm, m), r5)) (re_p r4))))))"

text \<open>
  \<^verbatim>\<open>_format_minutes\<close>: \<^verbatim>\<open>time(hour=h % 24, minute=m).strftime("%-I:%M %p")\<close>, with
  Python's floor division and modulo.
\<close>

definition two_digits :: "nat \<Rightarrow> string" where
  "two_digits n = [digit_char (n div 10), digit_char (n mod 10)]"

definition show_hour :: "nat \<Rightarrow> string" where
  "show_hour n = (if n < 10 then [digit_char n] else two_digits n)"

definition format_minutes :: "int \<Rightarrow> string" where
  "format_minutes minutes =
     (let h = minutes div 60;
          m = minutes mod 60;
          hour = nat (h mod 24);
          hour12 = (if hour mod 12 = 0 then 12 else hour mod 12)
      in show_hour hour12 @ '':'' @ two_digits (nat m) @ '' ''
         @ (if hour < 12 then ''AM'' else ''PM''))"

text \<open>\<^verbatim>\<open>int(value)\<close> truncates a finite float and raises on the others.\<close>

fun int_of_float :: "pyfloat \<Rightarrow> py_error + int" where
  "int_of_float (Finite r) = Inr (if 0 \<le> r then \<lfloor>r\<rfloor> else \<lceil>r\<rceil>)"
| "int_of_float PosInf = Inl OverflowError"
| "int_of_float NegInf = Inl OverflowError"
| "int_of_float NaN = Inl ValueError"

text \<open>
  \<^verbatim>\<open>_parse_time_to_minutes\<close>. The numeric branch lies outside the \<^verbatim>\<open>try\<close>; the string
  branch lies inside it, so an error of \<^verbatim>\<open>strptime\<close> becomes \<^verbatim>\<open>(None, None)\<close>.
\<close>

definition numeric_time :: "int \<Rightarrow> py_error + (int option \<times> string option)" where
  "numeric_time minutes = Inr (Some minutes, Some (format_minutes minutes))"

definition parse_clock :: "string \<Rightarrow> py_error + (nat \<times> nat)" where
  "parse_clock v =
     (if is_substring ''AM'' (py_upper v) \<or> is_substring ''PM'' (py_upper v)
      then strptime_IMp (py_upper v)
      else strptime_HM v)"

definition string_time :: "string \<Rightarrow> int option \<times> string option" where
  "string_time raw =
     (case parse_clock (py_strip raw) of
        Inr (h, m) \<Rightarrow>
          (let minutes = int h * 60 + int m in (Some minutes, Some (format_minutes minutes)))
      | Inl e \<Rightarrow> (None, None))"

fun parse_time_to_minutes :: "json \<Rightarrow> py_error + (int option \<times> string option)" where
  "parse_time_to_minutes JNull = Inr (None, None)"
| "parse_time_to_minutes (JBool b) = numeric_time (if b then 1 else 0)"
| "parse_time_to_minutes (JInt i) = numeric_time i"
| "parse_time_to_minutes (JFloat f) =
     (case int_of_float f of Inl e \<Rightarrow> Inl e | Inr minutes \<Rightarrow> numeric_time minutes)"
| "parse_time_to_minutes (JStr s) = Inr (string_time s)"
| "parse_time_to_minutes (JArr xs) = Inr (None, None)"
| "parse_time_to_minutes (JObj d) = Inr (None, None)"

section \<open>The hours normalizer\<close>

text \<open>\<^verbatim>\<open>_find_first_key._walk\<close> (utils_location.py).\<close>

fun ffk_walk :: "string \<Rightarrow> json \<Rightarrow> json"
  and ffk_walk_items :: "string \<Rightarrow> json list \<Rightarrow> json"
  and ffk_walk_values :: "string \<Rightarrow> pydict \<Rightarrow> json" where
  "ffk_walk key (JObj n) =
     (case map_of n key of
        Some v \<Rightarrow> v
      | None \<Rightarrow> ffk_walk_values key n)"
| "ffk_walk key (JArr xs) = ffk_walk_items key xs"
| "ffk_walk key JNull = JNull"
| "ffk_walk key (JBool b) = JNull"
| "ffk_walk key (JInt i) = JNull"
| "ffk_walk key (JFloat f) = JNull"
| "ffk_walk key (JStr s) = JNull"
| "ffk_walk_items key [] = JNull"
| "ffk_walk_items key (x # xs) =
     (let result = ffk_walk key x in
      if result \<noteq> JNull then result else ffk_walk_items key xs)"
| "ffk_walk_values key [] = JNull"
| "ffk_walk_values key ((k, v) # kvs) =
     (let result = ffk_walk key v in
      if result \<noteq> JNull then result else ffk_walk_values key kvs)"

definition find_first_key :: "json \<Rightarrow> string \<Rightarrow> json" where
  "find_first_key node key = ffk_walk key node"

definition json_of_text :: "string option \<Rightarrow> json" where
  "json_of_text t = (case t of None \<Rightarrow> JNull | Some s \<Rightarrow> JStr s)"

text \<open>
  The body of the loop over the sections of a day: \<open>Inr None\<close> is \<^verbatim>\<open>continue\<close>,
  \<open>Inr (Some entry)\<close> is the entry appended, \<open>Inl e\<close> an exception that leaves
  \<^verbatim>\<open>parse_hours\<close>.
\<close>

definition section_start :: "pydict \<Rightarrow> json" where
  "section_start section = py_or (dict_get section ''start'') (dict_get section ''openTime'')"

definition section_end :: "pydict \<Rightarrow> json" where
  "section_end section = py_or (dict_get section ''end'') (dict_get section ''closeTime'')"

definition section_title :: "pydict \<Rightarrow> json" where
  "section_title section =
     py_or (py_or (dict_get section ''sectionTitle'') (dict_get section ''label''))
       (JStr ''Open'')"

definition norm_section :: "pydict \<Rightarrow> py_error + json option" where
  "norm_section section =
     (case parse_time_to_minutes (section_start section) of
        Inl e \<Rightarrow> Inl e
      | Inr (start_minutes, start_formatted) \<Rightarrow>
          (case parse_time_to_minutes (section_end section) of
             Inl e \<Rightarrow> Inl e
           | Inr (end_minutes, end_formatted) \<Rightarrow>
               (case (start_minutes, end_minutes) of
                  (Some sm, Some em) \<Rightarrow>
                    Inr (Some (JObj
                      [(''startTime'', JInt sm),
                       (''endTime'', JInt em),
                       (''sectionTitle'', section_title section),
                       (''startTimeFormatted'', json_of_text start_formatted),
                       (''endTimeFormatted'', json_of_text end_formatted)]))
                | _ \<Rightarrow> Inr None)))"

fun norm_sections :: "json list \<Rightarrow> py_error + json list" where
  "norm_sections [] = Inr []"
| "norm_sections (JObj section # rest) =
     (case norm_section section of
        Inl e \<Rightarrow> Inl e
      | Inr entry \<Rightarrow>
          (case norm_sections rest of
             Inl e \<Rightarrow> Inl e
           | Inr out \<Rightarrow> Inr (case entry of None \<Rightarrow> out | Some x \<Rightarrow> x # out)))"
| "norm_sections (other # rest) = norm_sections rest"

fun norm_days :: "pydict \<Rightarrow> py_error + json list" where
  "norm_days [] = Inr []"
| "norm_days ((day, JArr sections) # rest) =
     (case norm_sections sections of
        Inl e \<Rightarrow> Inl e
      | Inr normalized_sections \<Rightarrow>
          (case norm_days rest of
             Inl e \<Rightarrow> Inl e
           | Inr out \<Rightarrow>
               Inr (if normalized_sections \<noteq> []
                    then JObj [(''dayRange'', JStr day),
                               (''sectionHours'', JArr normalized_sections)] # out
                    else out)))"
| "norm_days ((day, other) # rest) = norm_days rest"

definition find_schedule :: "json \<Rightarrow> json" where
  "find_schedule node =
     py_or (py_or (find_first_key node ''openingHours'') (find_first_key node ''schedule''))
       (find_first_key node ''hoursOfOperation'')"

definition parse_schedule :: "json \<Rightarrow> py_error + json list" where
  "parse_schedule node =
     (let schedule = find_schedule node in
      if \<not> truthy schedule then Inr []
      else (case schedule of JObj d \<Rightarrow> norm_days d | _ \<Rightarrow> Inr []))"

definition parse_hours :: "json \<Rightarrow> py_error + json list" where
  "parse_hours node =
     (case find_first_key node ''hours'' of
        JArr hours_raw \<Rightarrow>
          (if list_all is_dict hours_raw then Inr hours_raw else parse_schedule node)
      | _ \<Rightarrow> parse_schedule node)"

section \<open>The menu parser\<close>

text \<open>\<^verbatim>\<open>_looks_like_menu_item\<close> (menu_parser.py).\<close>

definition price_signal_keys :: "string list" where
  "price_signal_keys = [''price'', ''priceString'', ''displayPrice'', ''unitPrice'']"

definition looks_like_menu_item :: "pydict \<Rightarrow> bool" where
  "looks_like_menu_item node =
     (let has_title = is_str (py_or (dict_get node ''title'') (dict_get node ''name''));
          has_price = list_ex (has_key node) price_signal_keys
      in has_title \<and> has_price)"

text \<open>
  \<^verbatim>\<open>float(digits)\<close> on a text of digits and points, which is all \<^verbatim>\<open>_extract_price\<close>
  passes to it: at most one point and at least one digit, else \<^verbatim>\<open>ValueError\<close>. The
  result is written as the decimal number read; its rounding to binary64 is not modelled.
\<close>

definition nat_of_digits :: "string \<Rightarrow> nat" where
  "nat_of_digits s = foldl (\<lambda>a c. 10 * a + digit_val c) 0 s"

definition float_of_decimal :: "string \<Rightarrow> py_error + pyfloat" where
  "float_of_decimal s =
     (let whole = takeWhile (\<lambda>c. c \<noteq> CHR ''.'') s;
          after = dropWhile (\<lambda>c. c \<noteq> CHR ''.'') s
      in case after of
           [] \<Rightarrow>
             (if whole \<noteq> [] \<and> list_all is_digit whole
              then Inr (Finite (of_nat (nat_of_digits whole)))
              else Inl ValueError)
         | point # decimals \<Rightarrow>
             (if list_all is_digit whole \<and> list_all is_digit decimals \<and> (whole \<noteq> [] \<or> decimals \<noteq> [])
              then Inr (Finite (of_nat (nat_of_digits (whole @ decimals)) / 10 ^ length decimals))
              else Inl ValueError))"

text \<open>
  \<^verbatim>\<open>_extract_price\<close>. The source file ends inside the numeric branch, after
  \<^verbatim>\<open>if price_raw > 10000:\<close>; that branch is the parameter \<open>numeric_tail\<close>, applied to
  the value of the first of \<^verbatim>\<open>price\<close>, \<^verbatim>\<open>unitPrice\<close>, \<^verbatim>\<open>amount\<close> when it is not
  \<^verbatim>\<open>None\<close>. The fallback on price texts is complete in the source.
\<close>

definition price_digits :: "string \<Rightarrow> string" where
  "price_digits price_str = filter (\<lambda>ch. is_digit ch \<or> ch = CHR ''.'') price_str"

definition price_text :: "pydict \<Rightarrow> json" where
  "price_text node =
     py_or (py_or (dict_get node ''priceString'') (dict_get node ''displayPrice''))
       (dict_get node ''formattedPrice'')"

definition price_from_text :: "pydict \<Rightarrow> pyfloat option" where
  "price_from_text node =
     (case price_text node of
        JStr price_str \<Rightarrow>
          (let digits = price_digits price_str in
           if digits \<noteq> [] then
             (case float_of_decimal digits of Inr f \<Rightarrow> Some f | Inl e \<Rightarrow> None)
           else None)
      | _ \<Rightarrow> None)"

definition price_raw :: "pydict \<Rightarrow> json" where
  "price_raw node =
     (case first_present [''price'', ''unitPrice'', ''amount''] node of
        Some v \<Rightarrow> v
      | None \<Rightarrow> JNull)"

definition extract_price :: "(json \<Rightarrow> pyfloat option) \<Rightarrow> pydict \<Rightarrow> pyfloat option" where
  "extract_price numeric_tail node =
     (if price_raw node = JNull then price_from_text node else numeric_tail (price_raw node))"

text \<open>
  \<^verbatim>\<open>extract_menu_items._walk\<close>: the items are appended in traversal order. The helper
  \<^verbatim>\<open>_normalize_menu_item\<close> is not in the source file; it is the parameter
  \<open>normalizer\<close>, which gives \<open>None\<close> when its result is falsy
  (\<^verbatim>\<open>if normalized:\<close>).
\<close>

fun emi_walk :: "(pydict \<Rightarrow> 'a option) \<Rightarrow> json \<Rightarrow> 'a list"
  and emi_walk_items :: "(pydict \<Rightarrow> 'a option) \<Rightarrow> json list \<Rightarrow> 'a list"
  and emi_walk_values :: "(pydict \<Rightarrow> 'a option) \<Rightarrow> pydict \<Rightarrow> 'a list" where
  "emi_walk normalizer (JObj node) =
     (if looks_like_menu_item node
      then (case normalizer node of Some normalized \<Rightarrow> [normalized] | None \<Rightarrow> [])
      else [])
     @ emi_walk_values normalizer node"
| "emi_walk normalizer (JArr xs) = emi_walk_items normalizer xs"
| "emi_walk normalizer JNull = []"
| "emi_walk normalizer (JBool b) = []"
| "emi_walk normalizer (JInt i) = []"
| "emi_walk normalizer (JFloat f) = []"
| "emi_walk normalizer (JStr s) = []"
| "emi_walk_items normalizer [] = []"
| "emi_walk_items normalizer (x # xs) = emi_walk normalizer x @ emi_walk_items normalizer xs"
| "emi_walk_values normalizer [] = []"
| "emi_walk_values normalizer ((k, v) # kvs) = emi_walk normalizer v @ emi_walk_values normalizer kvs"

definition extract_menu_items :: "(pydict \<Rightarrow> 'a option) \<Rightarrow> json \<Rightarrow> 'a list" where
  "extract_menu_items normalizer tree = emi_walk normalizer tree"

section \<open>The document assembler\<close>

text \<open>
  The assembled document; the type of its menu items is that of the normalizer's results.
\<close>

record 'a restaurant_document =
  doc_logoUrl :: json
  doc_name :: json
  doc_categories :: "string list"
  doc_rating :: json
  doc_reviewCount :: json
  doc_currencyCode :: json
  doc_location :: location
  doc_phoneNumber :: json
  doc_uuid :: json
  doc_hours :: "json list"
  doc_url :: string
  doc_menuItems :: "'a list"

text \<open>\<^verbatim>\<open>restaurant_node or root\<close>, the tree most fields are resolved in.\<close>

definition restaurant_scope :: "json \<Rightarrow> json" where
  "restaurant_scope payload = py_or (guess_restaurant_node payload) payload"

text \<open>
  \<^verbatim>\<open>_build_restaurant_document\<close>; \<open>scope\<close> is \<^verbatim>\<open>restaurant_node or root\<close>. An
  exception of \<^verbatim>\<open>parse_hours\<close> leaves the function.
\<close>

definition build_restaurant_document ::
  "(pydict \<Rightarrow> 'a option) \<Rightarrow> string \<Rightarrow> json \<Rightarrow> bool \<Rightarrow> py_error + 'a restaurant_document" where
  "build_restaurant_document normalizer url payload include_menu =
     (let restaurant_node = guess_restaurant_node payload;
          logo_url = find_first_value payload [''logoUrl'', ''heroImage'', ''imageUrl''];
          name = find_first_value restaurant_node [''name'', ''title''];
          scope = py_or restaurant_node payload;
          categories = guess_categories scope;
          rating = find_first_value scope [''rating'', ''averageRating''];
          review_count = find_first_value scope [''reviewCount'', ''ratingCount''];
          currency_code = find_first_value scope [''currencyCode'', ''currency''];
          uuid = find_first_value scope [''uuid'', ''storeUuid'', ''restaurantUuid''];
          location = parse_location scope
      in case parse_hours scope of
           Inl e \<Rightarrow> Inl e
         | Inr hours \<Rightarrow>
             Inr \<lparr> doc_logoUrl = logo_url,
                   doc_name = py_or name (JStr ''''),
                   doc_categories = categories,
                   doc_rating = rating,
                   doc_reviewCount = review_count,
                   doc_currencyCode = currency_code,
                   doc_location = location,
                   doc_phoneNumber =
                     find_first_value scope [''phoneNumber'', ''phone'', ''contactPhone''],
                   doc_uuid = uuid,
                   doc_hours = hours,
                   doc_url = url,
                   doc_menuItems = (if include_menu then extract_menu_items normalizer scope else []) \<rparr>)"

section \<open>Parts of the menu parser that the source lacks\<close>

text \<open>
  Modelled from the spec: the numeric branch of \<^verbatim>\<open>_extract_price\<close>, cut off in the
  source after \<^verbatim>\<open>if price_raw > 10000:\<close>. The specification has a number above 10000
  read as cents and divided by 100, and a number up to the threshold taken as it is; a
  value that is not a number gives null.
\<close>

fun float_cents :: "pyfloat \<Rightarrow> pyfloat" where
  "float_cents (Finite r) = Finite (if r > 10000 then r / 100 else r)"
| "float_cents PosInf = PosInf"
| "float_cents NegInf = NegInf"
| "float_cents NaN = NaN"

fun numeric_price_spec :: "json \<Rightarrow> pyfloat option" where
  "numeric_price_spec (JInt i) = Some (float_cents (Finite (of_int i)))"
| "numeric_price_spec (JBool b) = Some (Finite (if b then 1 else 0))"
| "numeric_price_spec (JFloat f) = Some (float_cents f)"
| "numeric_price_spec j = None"

text \<open>
  Modelled from the spec: \<^verbatim>\<open>_normalize_menu_item\<close>, which is missing from the source.
  The specification has each match normalized by the price extractor and by copying
  fields through; a menu item has a title and a price.
\<close>

record menu_item =
  item_title :: json
  item_price :: "pyfloat option"

definition normalize_menu_item_spec :: "pydict \<Rightarrow> menu_item option" where
  "normalize_menu_item_spec node =
     Some \<lparr> item_title = py_or (dict_get node ''title'') (dict_get node ''name''),
            item_price = extract_price numeric_price_spec node \<rparr>"

section \<open>The words of the specification\<close>

text \<open>Every Object of a tree, in depth-first pre-order.\<close>

fun objects :: "json \<Rightarrow> pydict list"
  and objects_items :: "json list \<Rightarrow> pydict list"
  and objects_values :: "pydict \<Rightarrow> pydict list" where
  "objects (JObj d) = d # objects_values d"
| "objects (JArr xs) = objects_items xs"
| "objects JNull = []"
| "objects (JBool b) = []"
| "objects (JInt i) = []"
| "objects (JFloat f) = []"
| "objects (JStr s) = []"
| "objects_items [] = []"
| "objects_items (x # xs) = objects x @ objects_items xs"
| "objects_values [] = []"
| "objects_values ((k, v) # kvs) = objects v @ objects_values kvs"

definition contains_any :: "string list \<Rightarrow> pydict \<Rightarrow> bool" where
  "contains_any keys d = list_ex (has_key d) keys"

text \<open>
  The resolver of the specification: the first Object in pre-order that has any of the
  keys decides, with the value of its first-priority key; absent (\<open>JNull\<close>) when there
  is no such Object.
\<close>

definition spec_find_first :: "json \<Rightarrow> string list \<Rightarrow> json" where
  "spec_find_first node keys =
     (case find (contains_any keys) (objects node) of
        None \<Rightarrow> JNull
      | Some d \<Rightarrow> (case first_present keys d of None \<Rightarrow> JNull | Some v \<Rightarrow> v))"

text \<open>
  What the code's traversal reaches: the value selected at each Object that has a
  candidate key, in pre-order, where such an Object is not descended into.
\<close>

fun hits :: "string list \<Rightarrow> json \<Rightarrow> json list"
  and hits_items :: "string list \<Rightarrow> json list \<Rightarrow> json list"
  and hits_values :: "string list \<Rightarrow> pydict \<Rightarrow> json list" where
  "hits keys (JObj d) =
     (case first_present keys d of
        Some v \<Rightarrow> [v]
      | None \<Rightarrow> hits_values keys d)"
| "hits keys (JArr xs) = hits_items keys xs"
| "hits keys JNull = []"
| "hits keys (JBool b) = []"
| "hits keys (JInt i) = []"
| "hits keys (JFloat f) = []"
| "hits keys (JStr s) = []"
| "hits_items keys [] = []"
| "hits_items keys (x # xs) = hits keys x @ hits_items keys xs"
| "hits_values keys [] = []"
| "hits_values keys ((k, v) # kvs) = hits keys v @ hits_values keys kvs"

definition first_non_null :: "json list \<Rightarrow> json" where
  "first_non_null vs = (case filter (\<lambda>v. v \<noteq> JNull) vs of [] \<Rightarrow> JNull | v # _ \<Rightarrow> v)"

text \<open>
  The first Object with a candidate key in the full pre-order is the first hit of the
  code's traversal: every Object before it has no candidate key, so the traversal
  descends through all of them.
\<close>

definition first_hit_agrees :: "string list \<Rightarrow> pydict list \<Rightarrow> json list \<Rightarrow> bool" where
  "first_hit_agrees keys objs hs =
     (case find (contains_any keys) objs of
        None \<Rightarrow> hs = []
      | Some d \<Rightarrow> (case hs of [] \<Rightarrow> False | h # _ \<Rightarrow> first_present keys d = Some h))"

text \<open>No Object of the tree has one of the keys.\<close>

definition unresolved :: "json \<Rightarrow> string list \<Rightarrow> bool" where
  "unresolved node keys = (find (contains_any keys) (objects node) = None)"


text \<open>The claim that C3 words: a string title or a string name, and a price key.\<close>

definition spec_is_menu_item :: "pydict \<Rightarrow> bool" where
  "spec_is_menu_item node =
     ((is_str (dict_get node ''title'') \<or> is_str (dict_get node ''name''))
      \<and> list_ex (has_key node) price_signal_keys)"


text \<open>
  The 24-hour text of a number of minutes since midnight, \<^verbatim>\<open>HH:MM\<close> with two digits
  each, as C8 words it.
\<close>

definition hhmm :: "int \<Rightarrow> string" where
  "hhmm m = two_digits (nat (m div 60)) @ '':'' @ two_digits (nat (m mod 60))"

text \<open>A list of matches starts with the value \<open>v\<close> and the rest \<open>r\<close>.\<close>

definition reads_back :: "(nat \<times> string) list \<Rightarrow> nat \<Rightarrow> string \<Rightarrow> bool" where
  "reads_back ms v r = (case ms of [] \<Rightarrow> False | m # _ \<Rightarrow> m = (v, r))"

section \<open>Example inputs\<close>

definition greedy_example :: json where
  "greedy_example =
     JObj [(''a'', JObj [(''name'', JNull)]), (''b'', JObj [(''name'', JStr ''X'')])]"

definition nested_example :: json where
  "nested_example =
     JObj [(''a'', JArr [JObj [(''title'', JStr ''T''), (''name'', JStr ''N'')]]),
           (''b'', JObj [(''name'', JStr ''Y'')])]"


definition falsy_first_schedule :: json where
  "falsy_first_schedule =
     JObj [(''openingHours'', JArr []),
           (''schedule'', JObj [(''Mon'', JArr [JObj [(''start'', JInt 540), (''end'', JInt 1020)]])])]"

definition infinite_start :: json where
  "infinite_start =
     JObj [(''openingHours'',
            JObj [(''Mon'', JArr [JObj [(''start'', JFloat PosInf), (''end'', JInt 60)]])])]"

definition late_section :: pydict where
  "late_section = [(''start'', JStr ''late''), (''end'', JStr ''23:00'')]"

definition mixed_days :: pydict where
  "mixed_days =
     [(''Mon'', JArr [JObj late_section,
                      JObj [(''openTime'', JStr ''09:00''), (''closeTime'', JStr ''5:30 PM'')]]),
      (''Tue'', JArr [JObj late_section])]"


definition late_until_infinity :: pydict where
  "late_until_infinity = [(''start'', JStr ''late''), (''end'', JFloat PosInf)]"

definition unbounded_evening :: json where
  "unbounded_evening =
     JObj [(''openingHours'', JObj [(''Mon'', JArr [JObj late_until_infinity])])]"

definition numbered_burger :: pydict where
  "numbered_burger = [(''title'', JInt 5), (''name'', JStr ''Burger''), (''price'', JInt 1)]"

definition test_diner :: json where
  "test_diner =
     JObj [(''merchant'',
            JObj [(''restaurantUuid'', JStr ''abc''),
                  (''name'', JStr ''Test Diner''),
                  (''latitude'', JFloat (Finite (401 / 10))),
                  (''longitude'', JFloat (Finite (- (742 / 10)))),
                  (''menu'', JArr [JObj [(''title'', JStr ''Burger''),
                                         (''price'', JFloat (Finite (999 / 100)))]])])]"

definition burger :: menu_item where
  "burger = \<lparr> item_title = JStr ''Burger'', item_price = Some (Finite (999 / 100)) \<rparr>"

section \<open>Properties of the resolver\<close>

lemma first_non_null_append:
  "first_non_null (xs @ ys) =
     (if first_non_null xs \<noteq> JNull then first_non_null xs else first_non_null ys)"
  by (induction xs) (auto simp: first_non_null_def)

lemma first_non_null_simps:
  "first_non_null [] = JNull"
  "first_non_null [v] = v"
  "first_non_null (v # vs) = (if v \<noteq> JNull then v else first_non_null vs)"
  by (auto simp: first_non_null_def)

lemma ffv_walk_hits:
  "ffv_walk keys j = first_non_null (hits keys j)"
  "ffv_walk_items keys xs = first_non_null (hits_items keys xs)"
  "ffv_walk_values keys d = first_non_null (hits_values keys d)"
  by (induction keys j and keys xs and keys d
        rule: ffv_walk_ffv_walk_items_ffv_walk_values.induct)
     (auto simp: first_non_null_simps first_non_null_append Let_def split: option.splits)

lemma first_present_None_iff:
  "first_present keys d = None \<longleftrightarrow> \<not> contains_any keys d"
  by (induction keys) (auto simp: contains_any_def has_key_def split: option.splits)

lemma find_append_cases:
  "find P (xs @ ys) = (case find P xs of None \<Rightarrow> find P ys | Some x \<Rightarrow> Some x)"
  by (induction xs) auto

lemma first_hit_agrees_append:
  assumes "first_hit_agrees keys os1 hs1" and "first_hit_agrees keys os2 hs2"
  shows "first_hit_agrees keys (os1 @ os2) (hs1 @ hs2)"
  using assms
  by (auto simp: first_hit_agrees_def find_append_cases split: option.splits list.splits)

lemma hits_objects:
  "first_hit_agrees keys (objects j) (hits keys j)"
  "first_hit_agrees keys (objects_items xs) (hits_items keys xs)"
  "first_hit_agrees keys (objects_values d) (hits_values keys d)"
proof (induction keys j and keys xs and keys d
        rule: hits_hits_items_hits_values.induct)
  case (1 keys d)
  show ?case
  proof (cases "first_present keys d")
    case None
    then have "\<not> contains_any keys d" by (simp add: first_present_None_iff)
    with None 1 show ?thesis by (simp add: first_hit_agrees_def)
  next
    case (Some v)
    then have "contains_any keys d"
      using first_present_None_iff [of keys d] by auto
    with Some show ?thesis by (simp add: first_hit_agrees_def)
  qed
next
  case (9 keys x xs)
  then show ?case by (simp add: first_hit_agrees_append)
next
  case (11 keys k v kvs)
  then show ?case by (simp add: first_hit_agrees_append)
qed (simp_all add: first_hit_agrees_def)

subsection \<open>C1: what the resolver returns\<close>

text \<open>
  C1, as stated, fails: in \<^verbatim>\<open>{"a": {"name": null}, "b": {"name": "X"}}\<close> the first Object
  in pre-order that has the key \<^verbatim>\<open>name\<close> is \<^verbatim>\<open>{"name": null}\<close>, yet the resolver goes on
  to the later sibling and returns \<^verbatim>\<open>"X"\<close>.
\<close>

theorem find_first_value_passes_null_hit:
  "find (contains_any [''name'']) (objects greedy_example) = Some [(''name'', JNull)]
   \<and> spec_find_first greedy_example [''name''] = JNull
   \<and> find_first_value greedy_example [''name''] = JStr ''X''"
  by (simp add: greedy_example_def spec_find_first_def find_first_value_def
        contains_any_def has_key_def)

text \<open>
  C1, amended: the resolver returns the value of the first-priority candidate key of the
  first Object in depth-first pre-order that has any candidate key whenever that value is
  not null, and it returns absent when no Object of the tree has a candidate key. A
  selected value that is null counts as a miss: in general the result is the first
  non-null value among those selected at the Objects the traversal reaches, where an
  Object that has a candidate key is not descended into.
\<close>

theorem find_first_value_greedy:
  "find_first_value node keys = first_non_null (hits keys node)
   \<and> (find (contains_any keys) (objects node) = None \<longrightarrow> find_first_value node keys = JNull)
   \<and> (spec_find_first node keys \<noteq> JNull \<longrightarrow>
        find_first_value node keys = spec_find_first node keys)"
proof -
  have walk: "find_first_value node keys = first_non_null (hits keys node)"
    by (cases node) (simp_all add: find_first_value_def ffv_walk_hits first_non_null_simps)
  have agree: "first_hit_agrees keys (objects node) (hits keys node)"
    by (rule hits_objects)
  have absent: "find_first_value node keys = JNull"
    if "find (contains_any keys) (objects node) = None"
    using that agree walk by (simp add: first_hit_agrees_def first_non_null_simps)
  have present: "find_first_value node keys = spec_find_first node keys"
    if "spec_find_first node keys \<noteq> JNull"
  proof -
    from that obtain d v where d: "find (contains_any keys) (objects node) = Some d"
      and v: "first_present keys d = Some v" and nn: "v \<noteq> JNull"
      by (auto simp: spec_find_first_def split: option.splits)
    from agree d v obtain rest where "hits keys node = v # rest"
      by (auto simp: first_hit_agrees_def split: list.splits)
    with walk nn d v show ?thesis
      by (simp add: first_non_null_simps spec_find_first_def)
  qed
  from walk absent present show ?thesis by blast
qed

theorem find_first_value_greedy_witness:
  "spec_find_first nested_example [''name'', ''title''] = JStr ''N''
   \<and> find_first_value nested_example [''name'', ''title''] = JStr ''N''
   \<and> find (contains_any [''name'']) (objects (JArr [JInt 1, JObj [(''x'', JNull)]])) = None
   \<and> find_first_value (JArr [JInt 1, JObj [(''x'', JNull)]]) [''name''] = JNull"
  using find_first_value_greedy [of nested_example "[''name'', ''title'']"]
    find_first_value_greedy [of "JArr [JInt 1, JObj [(''x'', JNull)]]" "[''name'']"]
  by (simp add: nested_example_def spec_find_first_def contains_any_def has_key_def
        first_non_null_simps)

section \<open>Properties of the location normalizer\<close>






section \<open>Properties of the time parser\<close>

text \<open>
  The patterns of \<^verbatim>\<open>%H\<close> and \<^verbatim>\<open>%M\<close> read two digits back: checked for each of the 24
  hours and each of the 60 minutes.
\<close>

lemma reads_backD: "reads_back ms v r \<Longrightarrow> \<exists>rest. ms = (v, r) # rest"
  by (cases ms) (simp_all add: reads_back_def)

lemma hours_read_back:
  "list_all (\<lambda>h. reads_back (re_H (two_digits h)) h []) [0 ..< 24]"
  by code_simp

lemma minutes_read_back:
  "list_all (\<lambda>k. reads_back (re_M (two_digits k)) k []) [0 ..< 60]"
  by code_simp

lemma digits_are_digits: "list_all (\<lambda>k. is_digit (digit_char k)) [0 ..< 10]"
  by code_simp

lemma re_H_more_text:
  "re_H (two_digits h @ r) = map (\<lambda>(v, s). (v, s @ r)) (re_H (two_digits h))"
  by (simp add: re_H_def two_digits_def)

lemma re_H_two_digits:
  assumes "h < 24"
  shows "\<exists>rest. re_H (two_digits h @ r) = (h, r) # rest"
proof -
  from assms have "h \<in> set [0 ..< 24]" by simp
  with hours_read_back have "reads_back (re_H (two_digits h)) h []"
    unfolding list_all_iff by blast
  then obtain rest where "re_H (two_digits h) = (h, []) # rest"
    using reads_backD by blast
  then show ?thesis
    by (simp add: re_H_more_text)
qed

lemma re_M_two_digits:
  assumes "k < 60"
  shows "\<exists>rest. re_M (two_digits k) = (k, []) # rest"
proof -
  from assms have "k \<in> set [0 ..< 60]" by simp
  with minutes_read_back have "reads_back (re_M (two_digits k)) k []"
    unfolding list_all_iff by blast
  then show ?thesis
    by (rule reads_backD)
qed

lemma strptime_HM_two_digits:
  assumes "h < 24" and "k < 60"
  shows "strptime_HM (two_digits h @ '':'' @ two_digits k) = Inr (h, k)"
proof -
  from assms(1) obtain r1 where "re_H (two_digits h @ CHR '':'' # two_digits k)
      = (h, CHR '':'' # two_digits k) # r1"
    using re_H_two_digits by blast
  moreover from assms(2) obtain r2 where "re_M (two_digits k) = (k, []) # r2"
    using re_M_two_digits by blast
  ultimately show ?thesis
    by (simp add: strptime_HM_def first_match_def)
qed

lemma digit_char_is_digit:
  assumes "k < 10"
  shows "is_digit (digit_char k)"
proof -
  from assms have "k \<in> set [0 ..< 10]" by simp
  with digits_are_digits show ?thesis
    unfolding list_all_iff by blast
qed

lemma two_digits_plain: "n < 100 \<Longrightarrow> \<forall>c \<in> set (two_digits n). is_digit c"
  using digit_char_is_digit [of "n div 10"] digit_char_is_digit [of "n mod 10"]
  by (simp add: two_digits_def)

lemma dropWhile_none: "\<forall>c \<in> set s. \<not> P c \<Longrightarrow> dropWhile P s = s"
  by (cases s) simp_all

lemma take_two_eq: "take 2 s = [a, b] \<Longrightarrow> b \<in> set s"
  by (cases s; cases "tl s") auto

lemma not_substring:
  "b \<notin> set s \<Longrightarrow> \<not> is_substring [a, b] s"
proof (induction s)
  case Nil
  show ?case by simp
next
  case (Cons c s)
  have "take 2 (c # s) \<noteq> [a, b]"
    using take_two_eq [of "c # s" a b] Cons.prems by blast
  with Cons show ?case by simp
qed

lemma clock_char:
  assumes "is_digit c \<or> c = CHR '':''"
  shows "\<not> is_space c \<and> to_upper c = c \<and> c \<noteq> CHR ''M''"
proof -
  from assms have "c = CHR ''0'' \<or> c = CHR ''1'' \<or> c = CHR ''2'' \<or> c = CHR ''3''
      \<or> c = CHR ''4'' \<or> c = CHR ''5'' \<or> c = CHR ''6'' \<or> c = CHR ''7''
      \<or> c = CHR ''8'' \<or> c = CHR ''9'' \<or> c = CHR '':''"
    by (simp add: is_digit_def)
  then show ?thesis
    by (elim disjE; simp add: is_space_def to_upper_def)
qed

lemma clock_text_plain:
  assumes "\<forall>c \<in> set s. is_digit c \<or> c = CHR '':''"
  shows "py_strip s = s" and "py_upper s = s"
    and "\<not> is_substring ''AM'' s" and "\<not> is_substring ''PM'' s"
proof -
  have nospace: "\<forall>c \<in> set s. \<not> is_space c"
    using assms clock_char by blast
  then have "\<forall>c \<in> set (rev s). \<not> is_space c" by simp
  with nospace show "py_strip s = s"
    by (simp add: py_strip_def dropWhile_none)
  have "\<forall>c \<in> set s. to_upper c = c"
    using assms clock_char by blast
  then show "py_upper s = s"
    by (simp add: py_upper_def map_idI)
  have "CHR ''M'' \<notin> set s" using assms clock_char by blast
  then show "\<not> is_substring ''AM'' s" and "\<not> is_substring ''PM'' s"
    by (simp_all add: not_substring)
qed

text \<open>
  C8: for every number of minutes from 0 to 1439, the time parser reads its 24-hour text
  \<^verbatim>\<open>HH:MM\<close> back as the same number of minutes.
\<close>

theorem time_round_trip:
  assumes "0 \<le> m" and "m \<le> 1439"
  shows "parse_time_to_minutes (JStr (hhmm m)) = Inr (Some m, Some (format_minutes m))"
proof -
  define h where "h = nat (m div 60)"
  define n where "n = nat (m mod 60)"
  from assms have h: "h < 24" and n: "n < 60"
    by (simp_all add: h_def n_def)
  from assms have "0 \<le> m div 60"
    by (simp add: pos_imp_zdiv_nonneg_iff)
  then have m: "int h * 60 + int n = m"
    by (simp add: h_def n_def)
  have shape: "hhmm m = two_digits h @ '':'' @ two_digits n"
    by (simp add: hhmm_def h_def n_def)
  from h n have "\<forall>c \<in> set (hhmm m). is_digit c \<or> c = CHR '':''"
    using two_digits_plain [of h] two_digits_plain [of n] by (auto simp: shape)
  note plain = clock_text_plain [OF this]
  from h n have "strptime_HM (hhmm m) = Inr (h, n)"
    unfolding shape by (rule strptime_HM_two_digits)
  with plain m show ?thesis
    by (simp add: string_time_def parse_clock_def)
qed

theorem time_round_trip_witness:
  "hhmm 1439 = ''23:59'' \<and> hhmm 65 = ''01:05''
   \<and> parse_time_to_minutes (JStr ''23:59'') = Inr (Some 1439, Some ''11:59 PM'')
   \<and> parse_time_to_minutes (JStr ''01:05'') = Inr (Some 65, Some ''1:05 AM'')"
  using time_round_trip [of 1439] time_round_trip [of 65]
  by (simp add: hhmm_def two_digits_def digit_char_def format_minutes_def show_hour_def)

section \<open>Properties of the hours normalizer\<close>

lemmas clock_eval =
  string_time_def parse_clock_def py_strip_def is_space_def py_upper_def to_upper_def
  strptime_HM_def strptime_IMp_def re_H_def re_I_def re_M_def re_spaces_def first_match_def
  hour_of_12_def digit_val_def is_digit_def format_minutes_def show_hour_def two_digits_def
  digit_char_def

lemmas section_eval =
  norm_section_def section_start_def section_end_def section_title_def py_or_def dict_get_def
  json_of_text_def

text \<open>
  C5, as stated, fails: in
  \<^verbatim>\<open>{"openingHours": [], "schedule": {"Mon": [{"start": 540, "end": 1020}]}}\<close> the key
  \<^verbatim>\<open>openingHours\<close> is found first and is an Array, yet the result is not empty: the empty
  Array is falsy, so \<^verbatim>\<open>or\<close> passes on to \<^verbatim>\<open>schedule\<close>.
\<close>

theorem parse_hours_skips_empty_schedule:
  "find_first_key falsy_first_schedule ''hours'' = JNull
   \<and> find_first_key falsy_first_schedule ''openingHours'' = JArr []
   \<and> parse_hours falsy_first_schedule =
       Inr [JObj [(''dayRange'', JStr ''Mon''),
                  (''sectionHours'',
                   JArr [JObj [(''startTime'', JInt 540), (''endTime'', JInt 1020),
                               (''sectionTitle'', JStr ''Open''),
                               (''startTimeFormatted'', JStr ''9:00 AM''),
                               (''endTimeFormatted'', JStr ''5:00 PM'')]])]]"
  by (simp add: falsy_first_schedule_def find_first_key_def parse_hours_def parse_schedule_def
      find_schedule_def section_eval numeric_time_def format_minutes_def show_hour_def
      two_digits_def digit_char_def)

text \<open>
  C5, amended: a \<^verbatim>\<open>hours\<close> value that resolves to an Array of Objects is returned as it
  is. Otherwise the schedule is the first of \<^verbatim>\<open>openingHours\<close>, \<^verbatim>\<open>schedule\<close>,
  \<^verbatim>\<open>hoursOfOperation\<close> that resolves to a truthy value (not null, not empty, not zero);
  when none does the result is empty, and when the schedule is not an Object the result
  is empty as well; an Object is normalized day by day.
\<close>

theorem parse_hours_resolution:
  "(\<forall>xs. find_first_key node ''hours'' = JArr xs \<and> list_all is_dict xs \<longrightarrow>
       parse_hours node = Inr xs)
   \<and> ((\<forall>xs. find_first_key node ''hours'' = JArr xs \<longrightarrow> \<not> list_all is_dict xs) \<longrightarrow>
        (truthy (find_first_key node ''openingHours'') \<longrightarrow>
           find_schedule node = find_first_key node ''openingHours'')
        \<and> (\<not> truthy (find_first_key node ''openingHours'')
             \<and> truthy (find_first_key node ''schedule'') \<longrightarrow>
           find_schedule node = find_first_key node ''schedule'')
        \<and> (\<not> truthy (find_first_key node ''openingHours'')
             \<and> \<not> truthy (find_first_key node ''schedule'') \<longrightarrow>
           find_schedule node = find_first_key node ''hoursOfOperation'')
        \<and> (\<not> truthy (find_schedule node) \<longrightarrow> parse_hours node = Inr [])
        \<and> (\<not> is_dict (find_schedule node) \<longrightarrow> parse_hours node = Inr [])
        \<and> (\<forall>d. find_schedule node = JObj d \<longrightarrow> parse_hours node = norm_days d))"
proof -
  have pass: "parse_hours node = Inr xs"
    if "find_first_key node ''hours'' = JArr xs" and "list_all is_dict xs" for xs
    using that by (simp add: parse_hours_def)
  have other: "parse_hours node = parse_schedule node"
    if "\<forall>xs. find_first_key node ''hours'' = JArr xs \<longrightarrow> \<not> list_all is_dict xs"
    using that by (cases "find_first_key node ''hours''") (simp_all add: parse_hours_def)
  have order: "(truthy (find_first_key node ''openingHours'') \<longrightarrow>
           find_schedule node = find_first_key node ''openingHours'')
        \<and> (\<not> truthy (find_first_key node ''openingHours'')
             \<and> truthy (find_first_key node ''schedule'') \<longrightarrow>
           find_schedule node = find_first_key node ''schedule'')
        \<and> (\<not> truthy (find_first_key node ''openingHours'')
             \<and> \<not> truthy (find_first_key node ''schedule'') \<longrightarrow>
           find_schedule node = find_first_key node ''hoursOfOperation'')"
    by (simp add: find_schedule_def py_or_def)
  have none: "parse_schedule node = Inr []" if "\<not> truthy (find_schedule node)"
    using that by (simp add: parse_schedule_def)
  have shape: "parse_schedule node = Inr []" if "\<not> is_dict (find_schedule node)"
    using that by (cases "find_schedule node") (simp_all add: parse_schedule_def)
  have days: "parse_schedule node = norm_days d" if "find_schedule node = JObj d" for d
    using that by (simp add: parse_schedule_def)
  have second: "(truthy (find_first_key node ''openingHours'') \<longrightarrow>
           find_schedule node = find_first_key node ''openingHours'')
        \<and> (\<not> truthy (find_first_key node ''openingHours'')
             \<and> truthy (find_first_key node ''schedule'') \<longrightarrow>
           find_schedule node = find_first_key node ''schedule'')
        \<and> (\<not> truthy (find_first_key node ''openingHours'')
             \<and> \<not> truthy (find_first_key node ''schedule'') \<longrightarrow>
           find_schedule node = find_first_key node ''hoursOfOperation'')
        \<and> (\<not> truthy (find_schedule node) \<longrightarrow> parse_hours node = Inr [])
        \<and> (\<not> is_dict (find_schedule node) \<longrightarrow> parse_hours node = Inr [])
        \<and> (\<forall>d. find_schedule node = JObj d \<longrightarrow> parse_hours node = norm_days d)"
    if "\<forall>xs. find_first_key node ''hours'' = JArr xs \<longrightarrow> \<not> list_all is_dict xs"
    unfolding other [OF that] using order none shape days by blast
  from pass second show ?thesis by blast
qed


theorem parse_hours_resolution_witness:
  "parse_hours (JObj [(''hours'', JArr [JObj [(''dayRange'', JStr ''Mon'')]])]) =
     Inr [JObj [(''dayRange'', JStr ''Mon'')]]
   \<and> find_schedule (JObj [(''openingHours'', JArr [JInt 1])]) = JArr [JInt 1]
   \<and> parse_hours (JObj [(''openingHours'', JArr [JInt 1])]) = Inr []
   \<and> parse_hours (JObj [(''name'', JStr ''Diner'')]) = Inr []"
  using parse_hours_resolution [of "JObj [(''hours'', JArr [JObj [(''dayRange'', JStr ''Mon'')]])]"]
    parse_hours_resolution [of "JObj [(''openingHours'', JArr [JInt 1])]"]
    parse_hours_resolution [of "JObj [(''name'', JStr ''Diner'')]"]
  by (simp add: find_first_key_def find_schedule_def py_or_def)

lemma string_never_raises: "\<exists>r. parse_time_to_minutes (JStr s) = Inr r"
  by simp

lemma norm_sections_skip:
  "norm_section sec = Inr None \<Longrightarrow> norm_sections (JObj sec # rest) = norm_sections rest"
  by (simp split: sum.splits)

lemma parse_time_shape:
  "parse_time_to_minutes v = Inr (Some sm, t) \<Longrightarrow> \<exists>sf. t = Some sf"
  by (cases v) (auto simp: numeric_time_def string_time_def Let_def split: sum.splits if_splits)

lemma norm_days_entries:
  "norm_days d = Inr out \<Longrightarrow>
     \<forall>e \<in> set out. \<exists>day secs ns. e = JObj [(''dayRange'', JStr day), (''sectionHours'', JArr ns)]
        \<and> (day, JArr secs) \<in> set d \<and> norm_sections secs = Inr ns \<and> ns \<noteq> []"
proof (induction d arbitrary: out rule: norm_days.induct)
  case 1
  then show ?case by simp
next
  case (2 day sections rest)
  then show ?case
    by (auto split: sum.splits if_splits) blast+
qed auto

text \<open>
  What the time parser and the hours normalizer do contain. On a string the parser
  does not raise, and gives \<^verbatim>\<open>(None, None)\<close> when either form of \<^verbatim>\<open>strptime\<close> fails.
  When both bounds of a section are parsed without an exception and one of them gives no
  minutes, the section is left out; a section without a title is titled \<^verbatim>\<open>"Open"\<close>;
  and every day of a result has at least one section that survived.
\<close>

lemma string_parse_failure_contained:
  "(\<exists>r. parse_time_to_minutes (JStr s) = Inr r)
   \<and> (\<forall>e. parse_clock (py_strip s) = Inl e \<longrightarrow>
         parse_time_to_minutes (JStr s) = Inr (None, None))
   \<and> (\<forall>x r. parse_time_to_minutes (section_start sec) = Inr (None, x)
          \<and> parse_time_to_minutes (section_end sec) = Inr r \<longrightarrow>
         norm_section sec = Inr None)
   \<and> (\<forall>x r. parse_time_to_minutes (section_start sec) = Inr r
          \<and> parse_time_to_minutes (section_end sec) = Inr (None, x) \<longrightarrow>
         norm_section sec = Inr None)
   \<and> (norm_section sec = Inr None \<longrightarrow> norm_sections (JObj sec # rest) = norm_sections rest)
   \<and> (\<forall>entry. norm_section sec = Inr (Some entry)
          \<and> \<not> has_key sec ''sectionTitle'' \<and> \<not> has_key sec ''label'' \<longrightarrow>
         (\<exists>sm em sf ef. entry =
            JObj [(''startTime'', JInt sm), (''endTime'', JInt em),
                  (''sectionTitle'', JStr ''Open''),
                  (''startTimeFormatted'', JStr sf), (''endTimeFormatted'', JStr ef)]))
   \<and> (\<forall>out. norm_days d = Inr out \<longrightarrow>
         (\<forall>e \<in> set out. \<exists>day secs ns.
            e = JObj [(''dayRange'', JStr day), (''sectionHours'', JArr ns)]
            \<and> (day, JArr secs) \<in> set d \<and> norm_sections secs = Inr ns \<and> ns \<noteq> []))"
proof -
  have caught: "parse_time_to_minutes (JStr s) = Inr (None, None)"
    if "parse_clock (py_strip s) = Inl e" for e
    using that by (simp add: string_time_def)
  have no_start: "norm_section sec = Inr None"
    if "parse_time_to_minutes (section_start sec) = Inr (None, x)"
      and "parse_time_to_minutes (section_end sec) = Inr r" for x r
    using that by (cases r) (simp add: norm_section_def)
  have no_end: "norm_section sec = Inr None"
    if "parse_time_to_minutes (section_start sec) = Inr r"
      and "parse_time_to_minutes (section_end sec) = Inr (None, x)" for x r
    using that by (cases r) (simp add: norm_section_def split: option.splits)
  have title: "\<exists>sm em sf ef. entry =
        JObj [(''startTime'', JInt sm), (''endTime'', JInt em),
              (''sectionTitle'', JStr ''Open''),
              (''startTimeFormatted'', JStr sf), (''endTimeFormatted'', JStr ef)]"
    if entry: "norm_section sec = Inr (Some entry)"
      and absent: "\<not> has_key sec ''sectionTitle''" "\<not> has_key sec ''label''" for entry
  proof -
    from absent have open_title: "section_title sec = JStr ''Open''"
      by (simp add: section_title_def has_key_def dict_get_def py_or_def)
    from entry obtain sm st em et
      where st: "parse_time_to_minutes (section_start sec) = Inr (Some sm, st)"
        and et: "parse_time_to_minutes (section_end sec) = Inr (Some em, et)"
        and shape: "entry = JObj [(''startTime'', JInt sm), (''endTime'', JInt em),
              (''sectionTitle'', section_title sec),
              (''startTimeFormatted'', json_of_text st), (''endTimeFormatted'', json_of_text et)]"
      by (auto simp: norm_section_def split: sum.splits option.splits)
    from parse_time_shape [OF st] parse_time_shape [OF et] shape open_title show ?thesis
      by (auto simp: json_of_text_def)
  qed
  show ?thesis
    using string_never_raises [of s] caught no_start no_end norm_sections_skip [of sec rest]
      title norm_days_entries [of d]
    by blast
qed

lemma string_parse_failure_contained_example:
  "parse_clock (py_strip ''late'') = Inl ValueError
   \<and> parse_time_to_minutes (JStr ''late'') = Inr (None, None)
   \<and> norm_section late_section = Inr None
   \<and> norm_days mixed_days =
       Inr [JObj [(''dayRange'', JStr ''Mon''),
                  (''sectionHours'',
                   JArr [JObj [(''startTime'', JInt 540), (''endTime'', JInt 1050),
                               (''sectionTitle'', JStr ''Open''),
                               (''startTimeFormatted'', JStr ''9:00 AM''),
                               (''endTimeFormatted'', JStr ''5:30 PM'')]])]]"
proof -
  note contained = string_parse_failure_contained [of "''late''" late_section "[]" mixed_days]
  have fails: "parse_clock (py_strip ''late'') = Inl ValueError"
    by (simp add: clock_eval)
  with contained have none: "parse_time_to_minutes (JStr ''late'') = Inr (None, None)"
    by blast
  have nine: "parse_time_to_minutes (JStr ''09:00'') = Inr (Some 540, Some ''9:00 AM'')"
    by (simp add: clock_eval)
  have half_five: "parse_time_to_minutes (JStr ''5:30 PM'') = Inr (Some 1050, Some ''5:30 PM'')"
    by (simp add: clock_eval)
  have eleven: "parse_time_to_minutes (JStr ''23:00'') = Inr (Some 1380, Some ''11:00 PM'')"
    by (simp add: clock_eval)
  have start: "section_start late_section = JStr ''late''"
    and "end": "section_end late_section = JStr ''23:00''"
    by (simp_all add: late_section_def section_start_def section_end_def py_or_def dict_get_def)
  from contained none eleven start "end" have late: "norm_section late_section = Inr None"
    by metis
  have other: "norm_section [(''openTime'', JStr ''09:00''), (''closeTime'', JStr ''5:30 PM'')] =
      Inr (Some (JObj [(''startTime'', JInt 540), (''endTime'', JInt 1050),
                       (''sectionTitle'', JStr ''Open''),
                       (''startTimeFormatted'', JStr ''9:00 AM''),
                       (''endTimeFormatted'', JStr ''5:30 PM'')]))"
    by (simp add: section_eval nine half_five del: parse_time_to_minutes.simps)
  from late other have "norm_days mixed_days =
       Inr [JObj [(''dayRange'', JStr ''Mon''),
                  (''sectionHours'',
                   JArr [JObj [(''startTime'', JInt 540), (''endTime'', JInt 1050),
                               (''sectionTitle'', JStr ''Open''),
                               (''startTimeFormatted'', JStr ''9:00 AM''),
                               (''endTimeFormatted'', JStr ''5:30 PM'')]])]]"
    by (simp add: mixed_days_def)
  with fails none late show ?thesis by simp
qed

text \<open>
  C6 does not hold of the code: the time parser raises past its boundary on a float
  that is not finite, because \<^verbatim>\<open>int(value)\<close> in its numeric branch lies outside the
  \<^verbatim>\<open>try\<close> that guards the string branch. In
  \<^verbatim>\<open>{"openingHours": {"Mon": [{"start": "late", "end": 1e999}]}}\<close> the start does not
  parse, yet the section is not left out: the exception raised for the end leaves
  \<^verbatim>\<open>parse_hours\<close>.
\<close>

theorem time_parser_raises_on_infinity:
  "parse_time_to_minutes (JFloat PosInf) = Inl OverflowError
   \<and> parse_time_to_minutes (JFloat NaN) = Inl ValueError
   \<and> section_start late_until_infinity = JStr ''late''
   \<and> parse_time_to_minutes (JStr ''late'') = Inr (None, None)
   \<and> section_end late_until_infinity = JFloat PosInf
   \<and> norm_section late_until_infinity = Inl OverflowError
   \<and> parse_hours unbounded_evening = Inl OverflowError"
proof -
  have late: "parse_time_to_minutes (JStr ''late'') = Inr (None, None)"
    by (simp add: clock_eval)
  have start: "section_start late_until_infinity = JStr ''late''"
    and finish: "section_end late_until_infinity = JFloat PosInf"
    by (simp_all add: late_until_infinity_def section_start_def section_end_def py_or_def
        dict_get_def)
  have raised: "norm_section late_until_infinity = Inl OverflowError"
    by (simp add: norm_section_def start finish late del: parse_time_to_minutes.simps)
       simp
  have schedule: "find_schedule unbounded_evening =
      JObj [(''Mon'', JArr [JObj late_until_infinity])]"
    by (simp add: unbounded_evening_def find_schedule_def find_first_key_def py_or_def)
  have absent: "find_first_key unbounded_evening ''hours'' = JNull"
    by (simp add: unbounded_evening_def late_until_infinity_def find_first_key_def)
  have "parse_schedule unbounded_evening = Inl OverflowError"
    by (simp add: parse_schedule_def schedule raised)
  with absent have "parse_hours unbounded_evening = Inl OverflowError"
    by (simp add: parse_hours_def)
  with late start finish raised show ?thesis by simp
qed

section \<open>Properties of the menu parser\<close>

text \<open>
  C3, as stated, fails: \<^verbatim>\<open>{"title": 5, "name": "Burger", "price": 1}\<close> has a string
  \<^verbatim>\<open>name\<close> and a price key, yet it is not taken for a menu item, because the truthy
  \<^verbatim>\<open>title\<close> hides the name in \<^verbatim>\<open>node.get("title") or node.get("name")\<close>.
\<close>

theorem looks_like_menu_item_ignores_name:
  "spec_is_menu_item numbered_burger \<and> \<not> looks_like_menu_item numbered_burger"
  by (simp add: numbered_burger_def spec_is_menu_item_def looks_like_menu_item_def
      price_signal_keys_def has_key_def dict_get_def py_or_def)

text \<open>
  C3, amended: a node looks like a menu item if and only if the first truthy value of
  \<^verbatim>\<open>title\<close> and \<^verbatim>\<open>name\<close> is a string, that is \<^verbatim>\<open>title\<close> is a non-empty string, or
  \<^verbatim>\<open>title\<close> is absent or falsy and \<^verbatim>\<open>name\<close> is a string, and at least one of the four
  price keys is present, whatever its value. Such a node has a string title or a string
  name; and when \<^verbatim>\<open>title\<close> is absent or a non-empty string the test is the one C3 words.
\<close>

theorem looks_like_menu_item_iff:
  "(looks_like_menu_item node \<longleftrightarrow>
      ((is_str (dict_get node ''title'') \<and> truthy (dict_get node ''title''))
       \<or> (\<not> truthy (dict_get node ''title'') \<and> is_str (dict_get node ''name'')))
      \<and> list_ex (has_key node) price_signal_keys)
   \<and> (looks_like_menu_item node \<longrightarrow> spec_is_menu_item node)
   \<and> (\<not> has_key node ''title'' \<or> truthy (dict_get node ''title'') \<and> is_str (dict_get node ''title'')
        \<longrightarrow> looks_like_menu_item node = spec_is_menu_item node)"
  by (auto simp: looks_like_menu_item_def spec_is_menu_item_def py_or_def has_key_def
      dict_get_def split: option.splits)

theorem looks_like_menu_item_iff_witness:
  "looks_like_menu_item [(''name'', JStr ''Fries''), (''priceString'', JStr ''ask'')]
   \<and> spec_is_menu_item [(''name'', JStr ''Fries''), (''priceString'', JStr ''ask'')]
   \<and> \<not> looks_like_menu_item [(''title'', JStr ''Fries'')]"
  using looks_like_menu_item_iff [of "[(''name'', JStr ''Fries''), (''priceString'', JStr ''ask'')]"]
    looks_like_menu_item_iff [of "[(''title'', JStr ''Fries'')]"]
  by (simp add: price_signal_keys_def has_key_def dict_get_def spec_is_menu_item_def)





section \<open>Properties of the document assembler\<close>

lemma find_first_value_absent:
  assumes "find (contains_any keys) (objects node) = None"
  shows "find_first_value node keys = JNull"
proof -
  have "first_hit_agrees keys (objects node) (hits keys node)"
    by (rule hits_objects)
  with assms have "hits keys node = []"
    by (simp add: first_hit_agrees_def)
  then show ?thesis
    by (simp add: find_first_value_def ffv_walk_hits first_non_null_simps)
qed

lemma py_or_not_null: "b \<noteq> JNull \<Longrightarrow> py_or a b \<noteq> JNull"
  by (cases a) (auto simp: py_or_def)

text \<open>
  C10: the name of an assembled document is never null: it is the empty string when no
  truthy \<^verbatim>\<open>name\<close> or \<^verbatim>\<open>title\<close> resolves in the restaurant node, and the resolved value
  otherwise. Each of \<^verbatim>\<open>logoUrl\<close>, \<^verbatim>\<open>rating\<close>, \<^verbatim>\<open>reviewCount\<close>, \<^verbatim>\<open>currencyCode\<close>,
  \<^verbatim>\<open>phoneNumber\<close> and \<^verbatim>\<open>uuid\<close> is null when no Object has one of its keys.
\<close>

theorem document_name_never_null:
  assumes "build_restaurant_document normalizer url payload include_menu = Inr doc"
  shows "doc_name doc \<noteq> JNull
    \<and> (\<not> truthy (find_first_value (guess_restaurant_node payload) [''name'', ''title'']) \<longrightarrow>
         doc_name doc = JStr [])
    \<and> (truthy (find_first_value (guess_restaurant_node payload) [''name'', ''title'']) \<longrightarrow>
         doc_name doc = find_first_value (guess_restaurant_node payload) [''name'', ''title''])
    \<and> (unresolved payload [''logoUrl'', ''heroImage'', ''imageUrl''] \<longrightarrow> doc_logoUrl doc = JNull)
    \<and> (unresolved (restaurant_scope payload) [''rating'', ''averageRating''] \<longrightarrow>
         doc_rating doc = JNull)
    \<and> (unresolved (restaurant_scope payload) [''reviewCount'', ''ratingCount''] \<longrightarrow>
         doc_reviewCount doc = JNull)
    \<and> (unresolved (restaurant_scope payload) [''currencyCode'', ''currency''] \<longrightarrow>
         doc_currencyCode doc = JNull)
    \<and> (unresolved (restaurant_scope payload) [''phoneNumber'', ''phone'', ''contactPhone''] \<longrightarrow>
         doc_phoneNumber doc = JNull)
    \<and> (unresolved (restaurant_scope payload) [''uuid'', ''storeUuid'', ''restaurantUuid''] \<longrightarrow>
         doc_uuid doc = JNull)"
proof -
  from assms obtain hours where
    doc: "doc = \<lparr> doc_logoUrl = find_first_value payload [''logoUrl'', ''heroImage'', ''imageUrl''],
      doc_name = py_or (find_first_value (guess_restaurant_node payload) [''name'', ''title''])
                   (JStr []),
      doc_categories = guess_categories (restaurant_scope payload),
      doc_rating = find_first_value (restaurant_scope payload) [''rating'', ''averageRating''],
      doc_reviewCount =
        find_first_value (restaurant_scope payload) [''reviewCount'', ''ratingCount''],
      doc_currencyCode =
        find_first_value (restaurant_scope payload) [''currencyCode'', ''currency''],
      doc_location = parse_location (restaurant_scope payload),
      doc_phoneNumber =
        find_first_value (restaurant_scope payload) [''phoneNumber'', ''phone'', ''contactPhone''],
      doc_uuid =
        find_first_value (restaurant_scope payload) [''uuid'', ''storeUuid'', ''restaurantUuid''],
      doc_hours = hours,
      doc_url = url,
      doc_menuItems =
        (if include_menu then extract_menu_items normalizer (restaurant_scope payload) else []) \<rparr>"
    by (auto simp: build_restaurant_document_def restaurant_scope_def Let_def split: sum.splits)
  have name: "doc_name doc \<noteq> JNull"
    by (simp add: doc py_or_not_null)
  show ?thesis
    using name by (simp add: doc unresolved_def find_first_value_absent py_or_def)
qed

theorem document_name_never_null_witness:
  "\<exists>doc. build_restaurant_document normalize_menu_item_spec ''https://example.org/store''
       (JArr [JObj [(''name'', JStr ''Ghost'')]]) True = Inr doc
     \<and> find_first_value (guess_restaurant_node (JArr [JObj [(''name'', JStr ''Ghost'')]]))
          [''name'', ''title''] = JNull
     \<and> doc_name doc = JStr []
     \<and> doc_uuid doc = JNull \<and> doc_rating doc = JNull \<and> doc_logoUrl doc = JNull"
proof -
  let ?payload = "JArr [JObj [(''name'', JStr ''Ghost'')]]"
  have node: "guess_restaurant_node ?payload = JNull"
    by (simp add: guess_restaurant_node_def identity_keys_def has_key_def)
  have hours: "parse_hours ?payload = Inr []"
    by (simp add: parse_hours_def parse_schedule_def find_schedule_def find_first_key_def py_or_def)
  then obtain doc where
    doc: "build_restaurant_document normalize_menu_item_spec ''https://example.org/store''
       ?payload True = Inr doc"
    by (simp add: build_restaurant_document_def Let_def node py_or_def)
  have scope: "restaurant_scope ?payload = ?payload"
    by (simp add: restaurant_scope_def node py_or_def)
  have absent: "unresolved ?payload [''logoUrl'', ''heroImage'', ''imageUrl'']"
    "unresolved ?payload [''rating'', ''averageRating'']"
    "unresolved ?payload [''uuid'', ''storeUuid'', ''restaurantUuid'']"
    by (simp_all add: unresolved_def contains_any_def has_key_def)
  have name: "find_first_value (guess_restaurant_node ?payload) [''name'', ''title''] = JNull"
    by (simp add: node find_first_value_def)
  from document_name_never_null [OF doc] absent name scope
  have "doc_name doc = JStr [] \<and> doc_uuid doc = JNull \<and> doc_rating doc = JNull
      \<and> doc_logoUrl doc = JNull"
    by simp
  with doc name show ?thesis by blast
qed

lemma test_diner_node: "guess_restaurant_node test_diner = test_diner"
  by (simp add: guess_restaurant_node_def test_diner_def identity_keys_def has_key_def)

lemma test_diner_scope: "py_or test_diner test_diner = test_diner"
  by (simp add: py_or_def)

lemma test_diner_hours: "parse_hours test_diner = Inr []"
  by (simp add: test_diner_def parse_hours_def parse_schedule_def find_schedule_def
      find_first_key_def py_or_def)

lemma test_diner_menu: "extract_menu_items normalize_menu_item_spec test_diner = [burger]"
  by (simp add: test_diner_def extract_menu_items_def looks_like_menu_item_def
      price_signal_keys_def has_key_def dict_get_def py_or_def normalize_menu_item_spec_def
      extract_price_def price_raw_def burger_def)

lemma test_diner_location:
  "loc_latitude (parse_location test_diner) = JFloat (Finite (401 / 10))
   \<and> loc_longitude (parse_location test_diner) = JFloat (Finite (- (742 / 10)))"
  by (simp add: test_diner_def parse_location_def has_coordinates_def has_key_def dict_get_def)

text \<open>
  C2: the payload of the end-to-end scenario gives a document with uuid \<^verbatim>\<open>"abc"\<close>, name
  \<^verbatim>\<open>"Test Diner"\<close>, latitude 40.1 and exactly one menu item, \<^verbatim>\<open>"Burger"\<close> at 9.99. The
  menu item is built by the normalizer and the numeric price branch modelled from the
  specification.
\<close>

theorem test_diner_document:
  "\<exists>doc. build_restaurant_document normalize_menu_item_spec url test_diner True = Inr doc
     \<and> doc_uuid doc = JStr ''abc''
     \<and> doc_name doc = JStr ''Test Diner''
     \<and> loc_latitude (doc_location doc) = JFloat (Finite (401 / 10))
     \<and> doc_menuItems doc = [burger]
     \<and> item_title burger = JStr ''Burger''
     \<and> item_price burger = Some (Finite (999 / 100))"
proof -
  have uuid: "find_first_value test_diner [''uuid'', ''storeUuid'', ''restaurantUuid''] = JStr ''abc''"
    by (simp add: test_diner_def find_first_value_def)
  have name: "find_first_value test_diner [''name'', ''title''] = JStr ''Test Diner''"
    by (simp add: test_diner_def find_first_value_def)
  show ?thesis
    by (simp add: build_restaurant_document_def test_diner_node test_diner_scope
        test_diner_hours test_diner_menu test_diner_location uuid name py_or_def burger_def)
qed

text \<open>
  C9 does not hold of the code: for
  \<^verbatim>\<open>{"openingHours": {"Mon": [{"start": 1e999, "end": 60}]}}\<close>, where \<^verbatim>\<open>json.loads\<close> reads
  \<^verbatim>\<open>1e999\<close> as infinity, \<^verbatim>\<open>int(value)\<close> in the numeric branch of the time parser, which
  lies outside its \<^verbatim>\<open>try\<close>, raises \<^verbatim>\<open>OverflowError\<close>; the exception leaves
  \<^verbatim>\<open>parse_hours\<close> and the assembler, and no document is produced.
\<close>

theorem hours_exception_leaves_assembler:
  "parse_hours infinite_start = Inl OverflowError
   \<and> build_restaurant_document normalizer url infinite_start include_menu = Inl OverflowError"
proof -
  have node: "guess_restaurant_node infinite_start = infinite_start"
    by (simp add: guess_restaurant_node_def infinite_start_def identity_keys_def has_key_def)
  have scope: "py_or infinite_start infinite_start = infinite_start"
    by (simp add: py_or_def)
  have hours: "parse_hours infinite_start = Inl OverflowError"
    by (simp add: infinite_start_def find_first_key_def parse_hours_def parse_schedule_def
        find_schedule_def section_eval)
  then show ?thesis
    by (simp add: build_restaurant_document_def node scope Let_def)
qed

end
